theory Spec2Isabelle
  imports Main "HOL-Library.Word"
begin

section \<open>Data model of the image edit handler (src/app.py)\<close>

type_synonym bytes = "8 word list"

text \<open>An uploaded file as the handler reads it: its client-side name and its bytes.\<close>

record file_storage =
  filename :: string
  stream :: bytes

text \<open>The request: \<open>request.files\<close> and \<open>request.form\<close> as dictionaries.\<close>

record request =
  files :: "string \<rightharpoonup> file_storage"
  form :: "string \<rightharpoonup> string"

text \<open>
  The model's answer as the handler reads it: a list of candidates, the content of a
  candidate a list of parts, and on every part the two attributes \<open>inline_data\<close> and
  \<open>text\<close>, each of which the handler compares with \<open>None\<close>.
\<close>

record blob =
  data :: bytes

record part =
  inline_data :: "blob option"
  part_text :: "string option"

record content =
  parts :: "part list"

record candidate =
  content :: content

record response =
  candidates :: "candidate list"

text \<open>Exceptions, with the string that \<open>str(e)\<close> gives.\<close>

datatype exn = IndexError | ValueError string | OtherError string

fun str_exn :: "exn \<Rightarrow> string" where
  "str_exn IndexError = ''list index out of range''"
| "str_exn (ValueError m) = m"
| "str_exn (OtherError m) = m"

text \<open>
  What the handler calls outside this repository: the filename sanitiser, the random
  identifier of this request, the operating system accepting or refusing a write at a
  path, the image decoder, the generative model and the PNG encoder.
\<close>

record 'img env =
  secure_filename :: "string \<Rightarrow> string"
  uuid4_hex :: string
  os_write_error :: "string \<Rightarrow> exn option"
  image_open :: "bytes \<Rightarrow> exn + 'img"
  generate_content :: "string \<Rightarrow> 'img \<Rightarrow> exn + response"
  png_encode :: "'img \<Rightarrow> exn + bytes"

text \<open>The upload directory: file contents by path.\<close>

type_synonym fs = "string \<rightharpoonup> bytes"

datatype json_body =
  ErrorBody string
| EditResult string string string

text \<open>
  What leaves the handler: a JSON body with its status code, or an exception that no
  \<open>except\<close> clause of the handler caught.
\<close>

datatype outcome = Json nat json_body | Unhandled exn

section \<open>String helpers of the Python runtime\<close>

text \<open>\<open>str.lower\<close> on ASCII text: the letters A to Z change, nothing else does.\<close>

definition lower_char :: "char \<Rightarrow> char" where
  "lower_char c =
     (case map_of (zip ''ABCDEFGHIJKLMNOPQRSTUVWXYZ'' ''abcdefghijklmnopqrstuvwxyz'') c of
        Some l \<Rightarrow> l
      | None \<Rightarrow> c)"

definition lower :: "string \<Rightarrow> string" where
  "lower s = map lower_char s"

text \<open>\<open>s.rsplit(sep, 1)\<close>: split at the last separator, if there is one.\<close>

definition rsplit1 :: "char \<Rightarrow> string \<Rightarrow> string list" where
  "rsplit1 sep s =
     (if sep \<in> set s
      then [rev (tl (dropWhile (\<lambda>c. c \<noteq> sep) (rev s))), rev (takeWhile (\<lambda>c. c \<noteq> sep) (rev s))]
      else [s])"

text \<open>\<open>os.path.join(a, b)\<close> on a POSIX system.\<close>

definition os_path_join :: "string \<Rightarrow> string \<Rightarrow> string" where
  "os_path_join a b =
     (if b \<noteq> [] \<and> hd b = CHR ''/'' then b
      else if a = [] \<or> last a = CHR ''/'' then a @ b
      else a @ ''/'' @ b)"

section \<open>The handler\<close>

definition UPLOAD_FOLDER :: string where
  "UPLOAD_FOLDER = ''uploads''"

definition ALLOWED_EXTENSIONS :: "string set" where
  "ALLOWED_EXTENSIONS = {''png'', ''jpg'', ''jpeg'', ''gif''}"

definition allowed_file :: "string \<Rightarrow> bool" where
  "allowed_file fname =
     (if CHR ''.'' \<in> set fname
      then lower (rsplit1 (CHR ''.'') fname ! 1) \<in> ALLOWED_EXTENSIONS
      else False)"

text \<open>The first loop over the parts (lines 90 to 94): stop at the first part whose
  \<open>inline_data\<close> is not \<open>None\<close>.\<close>

fun scan_parts :: "part list \<Rightarrow> bytes option" where
  "scan_parts [] = None"
| "scan_parts (p # ps) =
     (case inline_data p of
        Some b \<Rightarrow> Some (data b)
      | None \<Rightarrow> scan_parts ps)"

text \<open>The second loop (lines 98 to 101): append every text that is not \<open>None\<close>.\<close>

fun collect_text :: "string \<Rightarrow> part list \<Rightarrow> string" where
  "collect_text text_response [] = text_response"
| "collect_text text_response (p # ps) =
     (case part_text p of
        Some t \<Rightarrow> collect_text (text_response @ t) ps
      | None \<Rightarrow> collect_text text_response ps)"

definition no_image_error :: "part list \<Rightarrow> exn" where
  "no_image_error ps =
     (let text_response = collect_text [] ps
      in ValueError (''The model did not return an image. Response: '' @
           (if text_response = [] then ''Empty'' else text_response)))"

text \<open>Response parsing (lines 90 to 104): the payload to decode, or the exception raised.
  \<open>candidates[0]\<close> raises on an empty list; \<open>not processed_image_data\<close> holds for
  \<open>None\<close> and for the empty byte string.\<close>

definition extract_image :: "response \<Rightarrow> exn + bytes" where
  "extract_image r =
     (case candidates r of
        [] \<Rightarrow> Inl IndexError
      | cand # _ \<Rightarrow>
          (case scan_parts (parts (content cand)) of
             None \<Rightarrow> Inl (no_image_error (parts (content cand)))
           | Some processed_image_data \<Rightarrow>
               if processed_image_data = []
               then Inl (no_image_error (parts (content cand)))
               else Inr processed_image_data))"

text \<open>Writing a file: the operating system refuses, or the directory is updated.\<close>

definition write_file :: "'img env \<Rightarrow> string \<Rightarrow> bytes \<Rightarrow> fs \<Rightarrow> exn + fs" where
  "write_file env path b dir =
     (case os_write_error env path of
        Some e \<Rightarrow> Inl e
      | None \<Rightarrow> Inr (dir(path \<mapsto> b)))"

text \<open>\<open>Image.open(filepath)\<close> on the stored upload.\<close>

definition open_stored :: "'img env \<Rightarrow> fs \<Rightarrow> string \<Rightarrow> exn + 'img" where
  "open_stored env dir path =
     (case dir path of
        None \<Rightarrow> Inl (OtherError ''No such file or directory'')
      | Some b \<Rightarrow> image_open env b)"

text \<open>Persisting the result (lines 107 to 117): decode, name, encode as PNG, write.\<close>

definition processed_name :: "string \<Rightarrow> string" where
  "processed_name fname = ''processed_'' @ (rsplit1 (CHR ''.'') fname ! 0) @ ''.png''"

definition persist_result :: "'img env \<Rightarrow> bytes \<Rightarrow> string \<Rightarrow> fs \<Rightarrow> exn + (string \<times> fs)" where
  "persist_result env processed_image_data fname dir =
     (case image_open env processed_image_data of
        Inl e \<Rightarrow> Inl e
      | Inr processed_image \<Rightarrow>
          (let processed_filename = processed_name fname;
               processed_filepath = os_path_join UPLOAD_FOLDER processed_filename
           in case png_encode env processed_image of
                Inl e \<Rightarrow> Inl e
              | Inr png \<Rightarrow>
                  (case write_file env processed_filepath png dir of
                     Inl e \<Rightarrow> Inl e
                   | Inr dir' \<Rightarrow> Inr (''/uploads/'' @ processed_filename, dir'))))"

text \<open>The body of the \<open>try\<close> statement (lines 70 to 117).\<close>

definition try_body :: "'img env \<Rightarrow> string \<Rightarrow> string \<Rightarrow> string \<Rightarrow> fs \<Rightarrow> exn + (string \<times> fs)" where
  "try_body env instruction fname filepath dir =
     (case open_stored env dir filepath of
        Inl e \<Rightarrow> Inl e
      | Inr img \<Rightarrow>
          (case generate_content env instruction img of
             Inl e \<Rightarrow> Inl e
           | Inr r \<Rightarrow>
               (case extract_image r of
                  Inl e \<Rightarrow> Inl e
                | Inr processed_image_data \<Rightarrow>
                    persist_result env processed_image_data fname dir)))"

definition stored_name :: "'img env \<Rightarrow> string \<Rightarrow> string" where
  "stored_name env client_name = uuid4_hex env @ ''_'' @ secure_filename env client_name"

definition failure_prefix :: string where
  "failure_prefix = ''Failed to process image with AI model. Details: ''"

text \<open>\<open>upload_file\<close> (lines 49 to 129). The file is saved before the \<open>try\<close> statement
  begins, so an exception of \<open>file.save\<close> leaves the handler.\<close>

definition upload_file :: "'img env \<Rightarrow> request \<Rightarrow> fs \<Rightarrow> outcome \<times> fs" where
  "upload_file env req dir =
     (case files req ''file'' of
        None \<Rightarrow> (Json 400 (ErrorBody ''No file part''), dir)
      | Some file \<Rightarrow>
          if filename file = [] then (Json 400 (ErrorBody ''No selected file''), dir)
          else
            (let instruction = (case form req ''instruction'' of None \<Rightarrow> [] | Some s \<Rightarrow> s)
             in if instruction = [] then (Json 400 (ErrorBody ''Instruction is required''), dir)
                else if filename file \<noteq> [] \<and> allowed_file (filename file) then
                  (let fname = stored_name env (filename file);
                       filepath = os_path_join UPLOAD_FOLDER fname
                   in case write_file env filepath (stream file) dir of
                        Inl e \<Rightarrow> (Unhandled e, dir)
                      | Inr dir1 \<Rightarrow>
                          (case try_body env instruction fname filepath dir1 of
                             Inl e \<Rightarrow>
                               (Json 500 (ErrorBody (failure_prefix @ str_exn e)), dir1)
                           | Inr (processed_image_url, dir2) \<Rightarrow>
                               (Json 200 (EditResult (''/uploads/'' @ fname)
                                            processed_image_url instruction), dir2)))
                else (Json 400
                        (ErrorBody ''File type not allowed or an unexpected error occurred.''),
                      dir)))"

section \<open>The identifier and sample inputs\<close>

text \<open>\<open>uuid.uuid4().hex\<close> is a string of 32 lower-case hexadecimal digits.\<close>

definition is_uuid_hex :: "string \<Rightarrow> bool" where
  "is_uuid_hex u = (length u = 32 \<and> (\<forall>c\<in>set u. c \<in> set ''0123456789abcdef''))"

text \<open>
  A sample environment for evaluating the handler on concrete requests. It stands in for
  the libraries and is not a model of them: its sanitiser only drops the characters that
  the sanitiser of the web framework drops (the two agree on a name of letters, digits and
  inner dots), its decoder takes the data that begin with the signature of a PNG file and
  hands them on as the image, its encoder returns the image as it is, and its model
  answers with a scripted response. The theorems about the handler hold for every
  environment; this one serves the concrete evaluations only.
\<close>

definition sample_secure_filename :: "string \<Rightarrow> string" where
  "sample_secure_filename s =
     filter (\<lambda>c. c \<in> set ''ABCDEFGHIJKLMNOPQRSTUVWXYZabcdefghijklmnopqrstuvwxyz0123456789_.-'') s"

definition sample_image_open :: "bytes \<Rightarrow> exn + bytes" where
  "sample_image_open b =
     (if take 8 b = [0x89, 0x50, 0x4E, 0x47, 0x0D, 0x0A, 0x1A, 0x0A] then Inr b
      else Inl (OtherError ''cannot identify image file''))"

definition sample_env :: "string \<Rightarrow> (string \<Rightarrow> exn option) \<Rightarrow> response \<Rightarrow> bytes env" where
  "sample_env u w r =
     \<lparr>secure_filename = sample_secure_filename,
      uuid4_hex = u,
      os_write_error = w,
      image_open = sample_image_open,
      generate_content = (\<lambda>instruction img. Inr r),
      png_encode = Inr\<rparr>"

definition writable :: "string \<Rightarrow> exn option" where
  "writable path = None"

text \<open>A file system that refuses a file name of more than 255 bytes, as Linux does
  (\<open>ENAMETOOLONG\<close>); the message is the \<open>str\<close> of the \<open>OSError\<close>.\<close>

definition basename :: "string \<Rightarrow> string" where
  "basename path = rev (takeWhile (\<lambda>c. c \<noteq> CHR ''/'') (rev path))"

definition name_max :: "string \<Rightarrow> exn option" where
  "name_max path =
     (if 255 < length (basename path)
      then Some (OtherError
             (''[Errno 36] File name too long: '' @ [CHR 0x27] @ path @ [CHR 0x27]))
      else None)"

definition long_name :: string where
  "long_name = replicate 300 (CHR ''a'') @ ''.png''"

definition uuid_a :: string where
  "uuid_a = ''0123456789abcdef0123456789abcdef''"

definition uuid_b :: string where
  "uuid_b = ''fedcba9876543210fedcba9876543210''"

text \<open>Parts on which the attribute that is not set is \<open>None\<close>: the shape that the two
  loops of the handler test for.\<close>

definition text_part :: "string \<Rightarrow> part" where
  "text_part t = \<lparr>inline_data = None, part_text = Some t\<rparr>"

definition inline_part :: "bytes \<Rightarrow> part" where
  "inline_part b = \<lparr>inline_data = Some \<lparr>data = b\<rparr>, part_text = None\<rparr>"

text \<open>Parts as the client library of the model (\<open>google.generativeai\<close>, imported at
  line 6) delivers them: every part has both attributes, and the one that is not set reads
  as an empty message or as the empty string, never as \<open>None\<close>.\<close>

definition sdk_text_part :: "string \<Rightarrow> part" where
  "sdk_text_part t = \<lparr>inline_data = Some \<lparr>data = []\<rparr>, part_text = Some t\<rparr>"

definition sdk_inline_part :: "bytes \<Rightarrow> part" where
  "sdk_inline_part b = \<lparr>inline_data = Some \<lparr>data = b\<rparr>, part_text = Some []\<rparr>"

definition response_of :: "part list \<Rightarrow> response" where
  "response_of ps = \<lparr>candidates = [\<lparr>content = \<lparr>parts = ps\<rparr>\<rparr>]\<rparr>"

definition upload_request :: "string \<Rightarrow> bytes \<Rightarrow> string \<Rightarrow> request" where
  "upload_request name b instruction =
     \<lparr>files = [''file'' \<mapsto> \<lparr>filename = name, stream = b\<rparr>],
      form = [''instruction'' \<mapsto> instruction]\<rparr>"

text \<open>Two PNG files of one pixel each.\<close>

definition png_a :: bytes where
  "png_a =
     [0x89, 0x50, 0x4E, 0x47, 0x0D, 0x0A, 0x1A, 0x0A, 0x00, 0x00, 0x00, 0x0D,
      0x49, 0x48, 0x44, 0x52, 0x00, 0x00, 0x00, 0x01, 0x00, 0x00, 0x00, 0x01,
      0x08, 0x02, 0x00, 0x00, 0x00, 0x90, 0x77, 0x53, 0xDE, 0x00, 0x00, 0x00,
      0x0C, 0x49, 0x44, 0x41, 0x54, 0x78, 0x9C, 0x63, 0xF8, 0xCF, 0xC0, 0x00,
      0x00, 0x03, 0x01, 0x01, 0x00, 0xC9, 0xFE, 0x92, 0xEF, 0x00, 0x00, 0x00,
      0x00, 0x49, 0x45, 0x4E, 0x44, 0xAE, 0x42, 0x60, 0x82]"

definition png_b :: bytes where
  "png_b =
     [0x89, 0x50, 0x4E, 0x47, 0x0D, 0x0A, 0x1A, 0x0A, 0x00, 0x00, 0x00, 0x0D,
      0x49, 0x48, 0x44, 0x52, 0x00, 0x00, 0x00, 0x01, 0x00, 0x00, 0x00, 0x01,
      0x08, 0x02, 0x00, 0x00, 0x00, 0x90, 0x77, 0x53, 0xDE, 0x00, 0x00, 0x00,
      0x0C, 0x49, 0x44, 0x41, 0x54, 0x78, 0x9C, 0x63, 0x68, 0x60, 0x68, 0x00,
      0x00, 0x02, 0x04, 0x01, 0x01, 0xCD, 0x32, 0x2D, 0xE0, 0x00, 0x00, 0x00,
      0x00, 0x49, 0x45, 0x4E, 0x44, 0xAE, 0x42, 0x60, 0x82]"

section \<open>Auxiliary facts\<close>

text \<open>Splitting at the last separator.\<close>

lemma rsplit1_last_sep:
  assumes "sep \<notin> set ext"
  shows "rsplit1 sep (stem @ sep # ext) = [stem, ext]"
proof -
  have t: "takeWhile (\<lambda>c. c \<noteq> sep) (rev ext @ sep # rev stem) = rev ext"
    using assms by (auto simp: takeWhile_append2 takeWhile_tail)
  have d: "dropWhile (\<lambda>c. c \<noteq> sep) (rev ext @ sep # rev stem) = sep # rev stem"
    using assms by (auto simp: dropWhile_append3)
  show ?thesis using t d by (simp add: rsplit1_def)
qed

lemma basename_join:
  assumes "CHR ''/'' \<notin> set name"
  shows "basename (d @ CHR ''/'' # name) = name"
proof -
  have "takeWhile (\<lambda>c. c \<noteq> CHR ''/'') (rev name @ CHR ''/'' # rev d) = rev name"
    using assms by (auto simp: takeWhile_append2 takeWhile_tail)
  then show ?thesis by (simp add: basename_def)
qed

lemma rsplit1_no_sep: "sep \<notin> set s \<Longrightarrow> rsplit1 sep s = [s]"
  by (simp add: rsplit1_def)

lemma split_at_last:
  "sep \<in> set s \<Longrightarrow> \<exists>stem ext. s = stem @ sep # ext \<and> sep \<notin> set ext"
  by (metis split_list_last)

lemma allowed_file_split:
  assumes "CHR ''.'' \<notin> set ext"
  shows "allowed_file (stem @ ''.'' @ ext) = (lower ext \<in> ALLOWED_EXTENSIONS)"
proof -
  have "rsplit1 (CHR ''.'') (stem @ CHR ''.'' # ext) = [stem, ext]"
    using assms by (rule rsplit1_last_sep)
  then show ?thesis by (simp add: allowed_file_def)
qed

lemma allowed_file_no_dot: "CHR ''.'' \<notin> set fname \<Longrightarrow> \<not> allowed_file fname"
  by (simp add: allowed_file_def)

lemma allowed_file_iff:
  "allowed_file fname \<longleftrightarrow>
     (\<exists>stem ext. fname = stem @ ''.'' @ ext \<and> CHR ''.'' \<notin> set ext \<and>
        lower ext \<in> ALLOWED_EXTENSIONS)"
proof
  assume a: "allowed_file fname"
  have "CHR ''.'' \<in> set fname"
  proof (rule ccontr)
    assume "CHR ''.'' \<notin> set fname"
    then have "\<not> allowed_file fname" by (rule allowed_file_no_dot)
    with a show False by simp
  qed
  then obtain stem ext where s: "fname = stem @ CHR ''.'' # ext" and n: "CHR ''.'' \<notin> set ext"
    using split_at_last[of "CHR ''.''" fname] by auto
  have f: "fname = stem @ ''.'' @ ext" using s by simp
  have "allowed_file (stem @ ''.'' @ ext)" using a f by simp
  then have l: "lower ext \<in> ALLOWED_EXTENSIONS"
    using allowed_file_split[OF n, of stem] by simp
  have "fname = stem @ ''.'' @ ext \<and> CHR ''.'' \<notin> set ext \<and> lower ext \<in> ALLOWED_EXTENSIONS"
    using f n l by simp
  then show "\<exists>stem ext. fname = stem @ ''.'' @ ext \<and> CHR ''.'' \<notin> set ext \<and>
        lower ext \<in> ALLOWED_EXTENSIONS"
    by (intro exI)
next
  assume "\<exists>stem ext. fname = stem @ ''.'' @ ext \<and> CHR ''.'' \<notin> set ext \<and>
        lower ext \<in> ALLOWED_EXTENSIONS"
  then obtain stem ext where f: "fname = stem @ ''.'' @ ext" and n: "CHR ''.'' \<notin> set ext"
    and l: "lower ext \<in> ALLOWED_EXTENSIONS"
    by auto
  have "allowed_file (stem @ ''.'' @ ext)"
    using allowed_file_split[OF n, of stem] l by simp
  then show "allowed_file fname"
    using f by simp
qed

lemma scan_parts_skip:
  "\<forall>q\<in>set pre. inline_data q = None \<Longrightarrow> scan_parts (pre @ ps) = scan_parts ps"
  by (induction pre) auto


lemma collect_text_concat:
  "collect_text acc ps = acc @ concat (List.map_filter part_text ps)"
  by (induction ps arbitrary: acc) (auto simp: List.map_filter_simps split: option.splits)


lemma upload_file_accepted:
  assumes "files req ''file'' = Some file" and "filename file \<noteq> []"
    and "form req ''instruction'' = Some instr" and "instr \<noteq> []"
    and "allowed_file (filename file)"
  shows "upload_file env req dir =
     (case write_file env (os_path_join UPLOAD_FOLDER (stored_name env (filename file)))
             (stream file) dir of
        Inl e \<Rightarrow> (Unhandled e, dir)
      | Inr dir1 \<Rightarrow>
          (case try_body env instr (stored_name env (filename file))
                  (os_path_join UPLOAD_FOLDER (stored_name env (filename file))) dir1 of
             Inl e \<Rightarrow> (Json 500 (ErrorBody (failure_prefix @ str_exn e)), dir1)
           | Inr (url, dir2) \<Rightarrow>
               (Json 200 (EditResult (''/uploads/'' @ stored_name env (filename file)) url instr),
                dir2)))"
  using assms by (simp add: upload_file_def Let_def)

text \<open>The handler up to response parsing, when the upload is stored, the stored image
  opens and the model answers.\<close>

lemma upload_file_parsed:
  assumes "files req ''file'' = Some file" and "filename file \<noteq> []"
    and "form req ''instruction'' = Some instr" and "instr \<noteq> []"
    and "allowed_file (filename file)"
    and "os_write_error env (os_path_join UPLOAD_FOLDER (stored_name env (filename file))) = None"
    and "image_open env (stream file) = Inr img"
    and "generate_content env instr img = Inr r"
    and "extract_image r = Inl e"
  shows "upload_file env req dir =
     (Json 500 (ErrorBody (failure_prefix @ str_exn e)),
      dir(os_path_join UPLOAD_FOLDER (stored_name env (filename file)) \<mapsto> stream file))"
  using assms
  by (simp add: upload_file_accepted write_file_def try_body_def open_stored_def)

lemma hex_digit_not_special:
  "c \<in> set ''0123456789abcdef'' \<Longrightarrow> c \<noteq> CHR ''.'' \<and> c \<noteq> CHR ''/'' \<and> c \<noteq> CHR ''p''"
  by auto

lemma is_uuid_hex_shape:
  assumes "is_uuid_hex u"
  shows "u \<noteq> []" and "hd u \<noteq> CHR ''/''" and "hd u \<noteq> CHR ''p''" and "CHR ''.'' \<notin> set u"
proof -
  have len: "length u = 32" and hex: "\<And>c. c \<in> set u \<Longrightarrow> c \<in> set ''0123456789abcdef''"
    using assms unfolding is_uuid_hex_def by blast+
  show ne: "u \<noteq> []"
  proof
    assume "u = []"
    then have "length u = 0" by simp
    with len show False by simp
  qed
  then have "hd u \<in> set u" by (rule hd_in_set)
  then have h: "hd u \<in> set ''0123456789abcdef''" by (rule hex)
  show "hd u \<noteq> CHR ''/''" using hex_digit_not_special[OF h] by simp
  show "hd u \<noteq> CHR ''p''" using hex_digit_not_special[OF h] by simp
  show "CHR ''.'' \<notin> set u"
  proof
    assume "CHR ''.'' \<in> set u"
    then have "CHR ''.'' \<in> set ''0123456789abcdef''" by (rule hex)
    then show False by simp
  qed
qed

lemma join_uploads:
  "name \<noteq> [] \<Longrightarrow> hd name \<noteq> CHR ''/'' \<Longrightarrow> os_path_join UPLOAD_FOLDER name = ''uploads/'' @ name"
  by (simp add: os_path_join_def UPLOAD_FOLDER_def)

lemma stem_of_stored:
  assumes "CHR ''.'' \<notin> set u"
  shows "rsplit1 (CHR ''.'') (u @ ''_'' @ sn) ! 0 = u @ ''_'' @ (rsplit1 (CHR ''.'') sn ! 0)"
proof (cases "CHR ''.'' \<in> set sn")
  case True
  then obtain stem ext where s: "sn = stem @ CHR ''.'' # ext" and n: "CHR ''.'' \<notin> set ext"
    using split_at_last[of "CHR ''.''" sn] by auto
  have a: "rsplit1 (CHR ''.'') ((u @ ''_'' @ stem) @ CHR ''.'' # ext) = [u @ ''_'' @ stem, ext]"
    using n by (rule rsplit1_last_sep)
  have b: "rsplit1 (CHR ''.'') (stem @ CHR ''.'' # ext) = [stem, ext]"
    using n by (rule rsplit1_last_sep)
  have "u @ ''_'' @ sn = (u @ ''_'' @ stem) @ CHR ''.'' # ext"
    using s by simp
  then have "rsplit1 (CHR ''.'') (u @ ''_'' @ sn) ! 0 = u @ ''_'' @ stem"
    using a by simp
  moreover have "rsplit1 (CHR ''.'') sn ! 0 = stem"
    using b s by simp
  ultimately show ?thesis by simp
next
  case False
  then have "CHR ''.'' \<notin> set (u @ ''_'' @ sn)" using assms by simp
  then have "rsplit1 (CHR ''.'') (u @ ''_'' @ sn) = [u @ ''_'' @ sn]"
    by (rule rsplit1_no_sep)
  moreover have "rsplit1 (CHR ''.'') sn = [sn]"
    using False by (rule rsplit1_no_sep)
  ultimately show ?thesis by simp
qed

lemma stored_paths:
  assumes "is_uuid_hex u"
  shows "os_path_join UPLOAD_FOLDER (u @ ''_'' @ sn) = ''uploads/'' @ u @ ''_'' @ sn"
    and "os_path_join UPLOAD_FOLDER (processed_name (u @ ''_'' @ sn)) =
           ''uploads/processed_'' @ u @ ''_'' @ (rsplit1 (CHR ''.'') sn ! 0) @ ''.png''"
proof -
  have "hd (u @ ''_'' @ sn) \<noteq> CHR ''/''"
    using is_uuid_hex_shape(1,2)[OF assms] by simp
  then show "os_path_join UPLOAD_FOLDER (u @ ''_'' @ sn) = ''uploads/'' @ u @ ''_'' @ sn"
    by (simp add: join_uploads)
  show "os_path_join UPLOAD_FOLDER (processed_name (u @ ''_'' @ sn)) =
           ''uploads/processed_'' @ u @ ''_'' @ (rsplit1 (CHR ''.'') sn ! 0) @ ''.png''"
    using stem_of_stored[OF is_uuid_hex_shape(4)[OF assms], of sn]
    by (simp add: processed_name_def join_uploads)
qed

lemma upload_file_200:
  assumes "upload_file env req dir = (Json 200 body, dir')"
  shows "\<exists>file instr url.
           files req ''file'' = Some file \<and> filename file \<noteq> [] \<and>
           form req ''instruction'' = Some instr \<and> instr \<noteq> [] \<and>
           allowed_file (filename file) \<and>
           os_write_error env (os_path_join UPLOAD_FOLDER (stored_name env (filename file))) = None \<and>
           try_body env instr (stored_name env (filename file))
             (os_path_join UPLOAD_FOLDER (stored_name env (filename file)))
             (dir(os_path_join UPLOAD_FOLDER (stored_name env (filename file)) \<mapsto> stream file))
             = Inr (url, dir') \<and>
           body = EditResult (''/uploads/'' @ stored_name env (filename file)) url instr"
  using assms
  by (auto simp: upload_file_def Let_def write_file_def
      split: option.splits if_splits sum.splits prod.splits)

lemma try_body_Inr:
  assumes "try_body env instr fname path dir1 = Inr (url, dir2)"
  shows "url = ''/uploads/'' @ processed_name fname \<and>
         (\<exists>png. dir2 = dir1(os_path_join UPLOAD_FOLDER (processed_name fname) \<mapsto> png))"
  using assms
  by (auto simp: try_body_def persist_result_def write_file_def Let_def
      split: sum.splits option.splits)

lemmas sample_defs =
  sample_env_def sample_secure_filename_def sample_image_open_def writable_def
  uuid_a_def uuid_b_def text_part_def inline_part_def sdk_text_part_def sdk_inline_part_def
  response_of_def upload_request_def png_a_def png_b_def

lemmas handler_defs =
  upload_file_def write_file_def try_body_def open_stored_def extract_image_def
  persist_result_def processed_name_def stored_name_def no_image_error_def failure_prefix_def
  allowed_file_def rsplit1_def lower_def lower_char_def ALLOWED_EXTENSIONS_def
  os_path_join_def UPLOAD_FOLDER_def Let_def

lemma no_image_error_eq:
  "no_image_error ps =
     ValueError (''The model did not return an image. Response: '' @
       (if concat (List.map_filter part_text ps) = [] then ''Empty''
        else concat (List.map_filter part_text ps)))"
  by (simp add: no_image_error_def collect_text_concat)

lemma extract_image_empty_payload:
  assumes "candidates r = c # cs" and "scan_parts (parts (content c)) = Some []"
  shows "extract_image r = Inl (no_image_error (parts (content c)))"
  using assms by (simp add: extract_image_def)


section \<open>Response parsing\<close>

text \<open>
  C1. The specification: the scan takes the first part whose inline data is present, so that with
  a text part first and an image part second the image of the second part is extracted.
  The handler: on a response as the client library delivers it, the inline data of the
  text part is an empty message and not \<open>None\<close>, so the scan stops at the text part
  with an empty payload, the image of the second part is not consulted, and the answer is
  the status 500 diagnostic.
\<close>

theorem C1_text_then_image_rejected:
  "scan_parts [sdk_text_part ''Here is the edited image.'', sdk_inline_part png_b] = Some [] \<and>
   upload_file
     (sample_env uuid_a writable
        (response_of [sdk_text_part ''Here is the edited image.'', sdk_inline_part png_b]))
     (upload_request ''cat.png'' png_a ''make the sky purple'') Map.empty =
   (Json 500 (ErrorBody
      ''Failed to process image with AI model. Details: The model did not return an image. Response: Here is the edited image.''),
    [''uploads/0123456789abcdef0123456789abcdef_cat.png'' \<mapsto> png_a])"
  by (simp add: sample_defs handler_defs)



text \<open>
  C10. When the first part with inline data holds the empty byte string, the scan stops
  there with the empty payload, and the handler answers with the status 500 diagnostic
  built from the text parts of the candidate: the empty payload is not decoded and no
  later part is used.
\<close>

theorem C10_empty_inline_payload:
  assumes "files req ''file'' = Some file" and "filename file \<noteq> []"
    and "form req ''instruction'' = Some instr" and "instr \<noteq> []"
    and "allowed_file (filename file)"
    and "os_write_error env (os_path_join UPLOAD_FOLDER (stored_name env (filename file))) = None"
    and "image_open env (stream file) = Inr img"
    and "generate_content env instr img = Inr r"
    and "candidates r = c # cs"
    and "parts (content c) = pre @ p # post"
    and "\<forall>q\<in>set pre. inline_data q = None"
    and "inline_data p = Some b"
    and "data b = []"
  shows "scan_parts (parts (content c)) = Some [] \<and>
         upload_file env req dir =
           (Json 500 (ErrorBody
              (''Failed to process image with AI model. Details: '' @
               ''The model did not return an image. Response: '' @
               (if concat (List.map_filter part_text (parts (content c))) = [] then ''Empty''
                else concat (List.map_filter part_text (parts (content c)))))),
            dir(os_path_join UPLOAD_FOLDER (stored_name env (filename file)) \<mapsto> stream file))"
proof -
  have "scan_parts (pre @ p # post) = scan_parts (p # post)"
    using assms(11) by (rule scan_parts_skip)
  then have s: "scan_parts (parts (content c)) = Some []"
    using assms(10,12,13) by simp
  with assms(9) have "extract_image r = Inl (no_image_error (parts (content c)))"
    by (rule extract_image_empty_payload)
  from upload_file_parsed[OF assms(1-8) this, of dir]
  have u: "upload_file env req dir =
     (Json 500 (ErrorBody (failure_prefix @ str_exn (no_image_error (parts (content c))))),
      dir(os_path_join UPLOAD_FOLDER (stored_name env (filename file)) \<mapsto> stream file))" .
  have "upload_file env req dir =
           (Json 500 (ErrorBody
              (''Failed to process image with AI model. Details: '' @
               ''The model did not return an image. Response: '' @
               (if concat (List.map_filter part_text (parts (content c))) = [] then ''Empty''
                else concat (List.map_filter part_text (parts (content c)))))),
            dir(os_path_join UPLOAD_FOLDER (stored_name env (filename file)) \<mapsto> stream file))"
    unfolding u by (simp add: no_image_error_eq failure_prefix_def)
  with s show ?thesis by (rule conjI)
qed

theorem C10_empty_inline_payload_witness:
  "upload_file
     (sample_env uuid_a writable
        (response_of [text_part ''Sorry, '', inline_part [], text_part ''no image.'', inline_part png_b]))
     (upload_request ''cat.png'' png_a ''make the sky purple'') Map.empty =
   (Json 500 (ErrorBody
      ''Failed to process image with AI model. Details: The model did not return an image. Response: Sorry, no image.''),
    [''uploads/0123456789abcdef0123456789abcdef_cat.png'' \<mapsto> png_a])"
proof -
  let ?ps = "[text_part ''Sorry, '', inline_part [], text_part ''no image.'', inline_part png_b]"
  let ?r = "response_of ?ps"
  let ?env = "sample_env uuid_a writable ?r"
  let ?req = "upload_request ''cat.png'' png_a ''make the sky purple''"
  let ?file = "\<lparr>filename = ''cat.png'', stream = png_a\<rparr>"
  let ?c = "\<lparr>content = \<lparr>parts = ?ps\<rparr>\<rparr>"
  have h1: "files ?req ''file'' = Some ?file" by (simp add: sample_defs)
  have h2: "filename ?file \<noteq> []" by simp
  have h3: "form ?req ''instruction'' = Some ''make the sky purple''" by (simp add: sample_defs)
  have h4: "''make the sky purple'' \<noteq> []" by simp
  have h5: "allowed_file (filename ?file)" by (simp add: handler_defs)
  have h6: "os_write_error ?env (os_path_join UPLOAD_FOLDER (stored_name ?env (filename ?file))) = None"
    by (simp add: sample_defs)
  have h7: "image_open ?env (stream ?file) = Inr png_a" by (simp add: sample_defs)
  have h8: "generate_content ?env ''make the sky purple'' png_a = Inr ?r" by (simp add: sample_defs)
  have h9: "candidates ?r = ?c # []" by (simp add: sample_defs)
  have h10: "parts (content ?c) =
       [text_part ''Sorry, ''] @ inline_part [] # [text_part ''no image.'', inline_part png_b]"
    by simp
  have h11: "\<forall>q\<in>set [text_part ''Sorry, '']. inline_data q = None" by (simp add: sample_defs)
  have h12: "inline_data (inline_part []) = Some \<lparr>data = []\<rparr>" by (simp add: sample_defs)
  have h13: "data \<lparr>data = []\<rparr> = []" by simp
  have p: "os_path_join UPLOAD_FOLDER (stored_name ?env (filename ?file)) =
             ''uploads/0123456789abcdef0123456789abcdef_cat.png''"
    by (simp add: sample_defs handler_defs)
  show ?thesis
    using C10_empty_inline_payload[OF h1 h2 h3 h4 h5 h6 h7 h8 h9 h10 h11 h12 h13, of Map.empty]
    unfolding p by (simp add: sample_defs List.map_filter_simps)
qed

lemma validation_no_file:
  "files req ''file'' = None \<Longrightarrow>
     upload_file env req dir = (Json 400 (ErrorBody ''No file part''), dir)"
  by (simp add: upload_file_def)

lemma validation_empty_filename:
  "files req ''file'' = Some upl \<Longrightarrow> filename upl = [] \<Longrightarrow>
     upload_file env req dir = (Json 400 (ErrorBody ''No selected file''), dir)"
  by (simp add: upload_file_def)

lemma validation_no_instruction:
  "files req ''file'' = Some upl \<Longrightarrow> filename upl \<noteq> [] \<Longrightarrow>
   form req ''instruction'' = None \<or> form req ''instruction'' = Some [] \<Longrightarrow>
     upload_file env req dir = (Json 400 (ErrorBody ''Instruction is required''), dir)"
  by (auto simp: upload_file_def)

lemma validation_extension:
  "files req ''file'' = Some upl \<Longrightarrow> filename upl \<noteq> [] \<Longrightarrow>
   form req ''instruction'' = Some instr \<Longrightarrow> instr \<noteq> [] \<Longrightarrow>
   \<not> allowed_file (filename upl) \<Longrightarrow>
     upload_file env req dir =
       (Json 400 (ErrorBody ''File type not allowed or an unexpected error occurred.''), dir)"
  by (simp add: upload_file_def)

lemma accepted_not_400:
  assumes "files req ''file'' = Some upl" and "filename upl \<noteq> []"
    and "form req ''instruction'' = Some instr" and "instr \<noteq> []"
    and "allowed_file (filename upl)"
  shows "fst (upload_file env req dir) \<noteq> Json 400 body"
  using assms
  by (simp add: upload_file_accepted split: sum.splits prod.splits)

section \<open>Validation\<close>

text \<open>
  C3. Validation fails fast in this order, each failure a status 400 answer with its own
  message, whatever the later checks would find: the file part is missing; the filename
  is empty; the instruction is missing or empty; the extension of the filename is not
  allowed.
\<close>

theorem C3_validation_order:
  "(files req ''file'' = None \<longrightarrow>
      upload_file env req dir = (Json 400 (ErrorBody ''No file part''), dir)) \<and>
   (\<forall>upl. files req ''file'' = Some upl \<and> filename upl = [] \<longrightarrow>
      upload_file env req dir = (Json 400 (ErrorBody ''No selected file''), dir)) \<and>
   (\<forall>upl. files req ''file'' = Some upl \<and> filename upl \<noteq> [] \<and>
      (form req ''instruction'' = None \<or> form req ''instruction'' = Some []) \<longrightarrow>
      upload_file env req dir = (Json 400 (ErrorBody ''Instruction is required''), dir)) \<and>
   (\<forall>upl instr. files req ''file'' = Some upl \<and> filename upl \<noteq> [] \<and>
      form req ''instruction'' = Some instr \<and> instr \<noteq> [] \<and>
      \<not> allowed_file (filename upl) \<longrightarrow>
      upload_file env req dir =
        (Json 400 (ErrorBody ''File type not allowed or an unexpected error occurred.''), dir))"
proof (intro conjI allI impI)
  assume "files req ''file'' = None"
  then show "upload_file env req dir = (Json 400 (ErrorBody ''No file part''), dir)"
    by (rule validation_no_file)
next
  fix upl
  assume "files req ''file'' = Some upl \<and> filename upl = []"
  then show "upload_file env req dir = (Json 400 (ErrorBody ''No selected file''), dir)"
    using validation_empty_filename[of req upl env dir] by simp
next
  fix upl
  assume "files req ''file'' = Some upl \<and> filename upl \<noteq> [] \<and>
      (form req ''instruction'' = None \<or> form req ''instruction'' = Some [])"
  then show "upload_file env req dir = (Json 400 (ErrorBody ''Instruction is required''), dir)"
    using validation_no_instruction[of req upl env dir] by simp
next
  fix upl instr
  assume "files req ''file'' = Some upl \<and> filename upl \<noteq> [] \<and>
      form req ''instruction'' = Some instr \<and> instr \<noteq> [] \<and>
      \<not> allowed_file (filename upl)"
  then show "upload_file env req dir =
        (Json 400 (ErrorBody ''File type not allowed or an unexpected error occurred.''), dir)"
    using validation_extension[of req upl instr env dir] by simp
qed

text \<open>Four requests, each failing one check and every check after it.\<close>

theorem C3_validation_order_witness:
  "upload_file (sample_env uuid_a writable (response_of []))
     \<lparr>files = Map.empty, form = Map.empty\<rparr> Map.empty
     = (Json 400 (ErrorBody ''No file part''), Map.empty) \<and>
   upload_file (sample_env uuid_a writable (response_of []))
     \<lparr>files = [''file'' \<mapsto> \<lparr>filename = [], stream = []\<rparr>], form = Map.empty\<rparr> Map.empty
     = (Json 400 (ErrorBody ''No selected file''), Map.empty) \<and>
   upload_file (sample_env uuid_a writable (response_of []))
     (upload_request ''notes.txt'' png_a []) Map.empty
     = (Json 400 (ErrorBody ''Instruction is required''), Map.empty) \<and>
   upload_file (sample_env uuid_a writable (response_of []))
     (upload_request ''notes.txt'' png_a ''make the sky purple'') Map.empty
     = (Json 400 (ErrorBody ''File type not allowed or an unexpected error occurred.''),
        Map.empty)"
proof -
  let ?env = "sample_env uuid_a writable (response_of [])"
  have n: "\<not> allowed_file ''notes.txt''" by (simp add: handler_defs)
  have a: "upload_file ?env \<lparr>files = Map.empty, form = Map.empty\<rparr> Map.empty
     = (Json 400 (ErrorBody ''No file part''), Map.empty)"
    using C3_validation_order[of "\<lparr>files = Map.empty, form = Map.empty\<rparr>" ?env Map.empty]
    by simp
  have b: "upload_file ?env
     \<lparr>files = [''file'' \<mapsto> \<lparr>filename = [], stream = []\<rparr>], form = Map.empty\<rparr> Map.empty
     = (Json 400 (ErrorBody ''No selected file''), Map.empty)"
    using C3_validation_order[of
        "\<lparr>files = [''file'' \<mapsto> \<lparr>filename = [], stream = []\<rparr>], form = Map.empty\<rparr>"
        ?env Map.empty]
    by simp
  have c: "upload_file ?env (upload_request ''notes.txt'' png_a []) Map.empty
     = (Json 400 (ErrorBody ''Instruction is required''), Map.empty)"
    using C3_validation_order[of "upload_request ''notes.txt'' png_a []" ?env Map.empty]
    by (simp add: upload_request_def)
  have d: "upload_file ?env (upload_request ''notes.txt'' png_a ''make the sky purple'') Map.empty
     = (Json 400 (ErrorBody ''File type not allowed or an unexpected error occurred.''),
        Map.empty)"
    using n C3_validation_order[of "upload_request ''notes.txt'' png_a ''make the sky purple''"
        ?env Map.empty]
    by (simp add: upload_request_def)
  show ?thesis using a b c d by simp
qed

text \<open>
  C4. A request that fails a validation check (no file part, empty filename, missing or
  empty instruction, extension not allowed) is answered with status 400 and the upload
  directory is left as it was.
\<close>

theorem C4_validation_failure_no_write:
  assumes "files req ''file'' = None \<or>
           (\<exists>upl. files req ''file'' = Some upl \<and>
              (filename upl = [] \<or> form req ''instruction'' = None \<or>
               form req ''instruction'' = Some [] \<or> \<not> allowed_file (filename upl)))"
  shows "\<exists>msg. upload_file env req dir = (Json 400 (ErrorBody msg), dir)"
proof (cases "files req ''file''")
  case None
  then show ?thesis using validation_no_file by blast
next
  case (Some upl)
  with assms have bad: "filename upl = [] \<or> form req ''instruction'' = None \<or>
       form req ''instruction'' = Some [] \<or> \<not> allowed_file (filename upl)"
    by simp
  show ?thesis
  proof (cases "filename upl = []")
    case True
    with Some show ?thesis using validation_empty_filename by blast
  next
    case nonempty: False
    show ?thesis
    proof (cases "form req ''instruction'' = None \<or> form req ''instruction'' = Some []")
      case True
      with Some nonempty show ?thesis using validation_no_instruction by blast
    next
      case False
      then obtain instr where i: "form req ''instruction'' = Some instr" "instr \<noteq> []"
        by (cases "form req ''instruction''") auto
      with bad nonempty have "\<not> allowed_file (filename upl)" by simp
      with Some nonempty i show ?thesis using validation_extension by blast
    qed
  qed
qed

theorem C4_validation_failure_no_write_witness:
  "\<not> allowed_file ''notes.txt'' \<and>
   (\<exists>msg. upload_file (sample_env uuid_a writable (response_of []))
      (upload_request ''notes.txt'' png_a ''make the sky purple'')
      [''uploads/earlier.png'' \<mapsto> png_b]
    = (Json 400 (ErrorBody msg), [''uploads/earlier.png'' \<mapsto> png_b]))"
proof -
  have n: "\<not> allowed_file ''notes.txt''" by (simp add: handler_defs)
  have "files (upload_request ''notes.txt'' png_a ''make the sky purple'') ''file'' = None \<or>
           (\<exists>upl. files (upload_request ''notes.txt'' png_a ''make the sky purple'') ''file''
                = Some upl \<and>
              (filename upl = [] \<or>
               form (upload_request ''notes.txt'' png_a ''make the sky purple'') ''instruction''
                 = None \<or>
               form (upload_request ''notes.txt'' png_a ''make the sky purple'') ''instruction''
                 = Some [] \<or> \<not> allowed_file (filename upl)))"
    using n by (simp add: upload_request_def)
  from C4_validation_failure_no_write[OF this] n show ?thesis by simp
qed

text \<open>
  C9. A filename passes the extension check exactly when it has a dot and the text after
  its last dot, in lower case, is one of png, jpg, jpeg, gif. So a filename without a dot
  is answered with the status 400 file-type message once the earlier checks have passed,
  and a name ending in .PNG or .JPG passes validation.
\<close>

theorem C9_extension_check:
  "(allowed_file fname \<longleftrightarrow>
      (\<exists>stem ext. fname = stem @ ''.'' @ ext \<and> CHR ''.'' \<notin> set ext \<and>
         lower ext \<in> {''png'', ''jpg'', ''jpeg'', ''gif''})) \<and>
   (\<forall>upl instr. files req ''file'' = Some upl \<and> filename upl \<noteq> [] \<and>
      CHR ''.'' \<notin> set (filename upl) \<and>
      form req ''instruction'' = Some instr \<and> instr \<noteq> [] \<longrightarrow>
      upload_file env req dir =
        (Json 400 (ErrorBody ''File type not allowed or an unexpected error occurred.''), dir)) \<and>
   allowed_file (stem' @ ''.PNG'') \<and> allowed_file (stem' @ ''.JPG'') \<and>
   (\<forall>upl instr body. files req ''file'' = Some upl \<and>
      (filename upl = stem' @ ''.PNG'' \<or> filename upl = stem' @ ''.JPG'') \<and>
      form req ''instruction'' = Some instr \<and> instr \<noteq> [] \<longrightarrow>
      fst (upload_file env req dir) \<noteq> Json 400 body)"
proof -
  have png: "allowed_file (stem' @ ''.PNG'')"
    using allowed_file_split[of "''PNG''" stem']
    by (simp add: lower_def lower_char_def ALLOWED_EXTENSIONS_def)
  have jpg: "allowed_file (stem' @ ''.JPG'')"
    using allowed_file_split[of "''JPG''" stem']
    by (simp add: lower_def lower_char_def ALLOWED_EXTENSIONS_def)
  have one: "allowed_file fname \<longleftrightarrow>
      (\<exists>stem ext. fname = stem @ ''.'' @ ext \<and> CHR ''.'' \<notin> set ext \<and>
         lower ext \<in> {''png'', ''jpg'', ''jpeg'', ''gif''})"
    using allowed_file_iff[of fname] unfolding ALLOWED_EXTENSIONS_def .
  have two: "\<forall>upl instr. files req ''file'' = Some upl \<and> filename upl \<noteq> [] \<and>
      CHR ''.'' \<notin> set (filename upl) \<and>
      form req ''instruction'' = Some instr \<and> instr \<noteq> [] \<longrightarrow>
      upload_file env req dir =
        (Json 400 (ErrorBody ''File type not allowed or an unexpected error occurred.''), dir)"
  proof (intro allI impI)
    fix upl instr
    assume h: "files req ''file'' = Some upl \<and> filename upl \<noteq> [] \<and>
      CHR ''.'' \<notin> set (filename upl) \<and>
      form req ''instruction'' = Some instr \<and> instr \<noteq> []"
    then have "\<not> allowed_file (filename upl)" using allowed_file_no_dot by simp
    with h show "upload_file env req dir =
        (Json 400 (ErrorBody ''File type not allowed or an unexpected error occurred.''), dir)"
      using validation_extension[of req upl instr env dir] by simp
  qed
  have three: "\<forall>upl instr body. files req ''file'' = Some upl \<and>
      (filename upl = stem' @ ''.PNG'' \<or> filename upl = stem' @ ''.JPG'') \<and>
      form req ''instruction'' = Some instr \<and> instr \<noteq> [] \<longrightarrow>
      fst (upload_file env req dir) \<noteq> Json 400 body"
  proof (intro allI impI)
    fix upl instr body
    assume h: "files req ''file'' = Some upl \<and>
      (filename upl = stem' @ ''.PNG'' \<or> filename upl = stem' @ ''.JPG'') \<and>
      form req ''instruction'' = Some instr \<and> instr \<noteq> []"
    then have a: "allowed_file (filename upl)" using png jpg by auto
    have ne: "filename upl \<noteq> []" using h by auto
    show "fst (upload_file env req dir) \<noteq> Json 400 body"
      using accepted_not_400[OF _ ne _ _ a, of req instr env dir body] h by simp
  qed
  show ?thesis using one two png jpg three by simp
qed

text \<open>A name without a dot is refused; a name in upper case is taken and processed.\<close>

theorem C9_extension_check_witness:
  "allowed_file ''photo.PNG'' \<and> allowed_file ''photo.JPG'' \<and>
   upload_file (sample_env uuid_a writable (response_of [sdk_inline_part png_b]))
     (upload_request ''README'' png_a ''make the sky purple'') Map.empty
     = (Json 400 (ErrorBody ''File type not allowed or an unexpected error occurred.''),
        Map.empty) \<and>
   fst (upload_file (sample_env uuid_a writable (response_of [sdk_inline_part png_b]))
     (upload_request ''photo.PNG'' png_a ''make the sky purple'') Map.empty)
     \<noteq> Json 400 (ErrorBody ''File type not allowed or an unexpected error occurred.'')"
proof -
  let ?env = "sample_env uuid_a writable (response_of [sdk_inline_part png_b])"
  let ?bad = "upload_request ''README'' png_a ''make the sky purple''"
  let ?good = "upload_request ''photo.PNG'' png_a ''make the sky purple''"
  note bad = C9_extension_check[of "''photo.PNG''" ?bad ?env Map.empty "''photo''"]
  note good = C9_extension_check[of "''photo.PNG''" ?good ?env Map.empty "''photo''"]
  have a: "allowed_file ''photo.PNG''"
    using bad[THEN conjunct2, THEN conjunct2, THEN conjunct1] by simp
  have b: "allowed_file ''photo.JPG''"
    using bad[THEN conjunct2, THEN conjunct2, THEN conjunct2, THEN conjunct1] by simp
  have c: "upload_file ?env ?bad Map.empty
     = (Json 400 (ErrorBody ''File type not allowed or an unexpected error occurred.''),
        Map.empty)"
    using bad[THEN conjunct2, THEN conjunct1] by (simp add: upload_request_def)
  have d: "fst (upload_file ?env ?good Map.empty)
     \<noteq> Json 400 (ErrorBody ''File type not allowed or an unexpected error occurred.'')"
    using good[THEN conjunct2, THEN conjunct2, THEN conjunct2, THEN conjunct2]
    by (simp add: upload_request_def)
  show ?thesis using a b c d by (intro conjI)
qed




section \<open>Failures\<close>

text \<open>
  C6. The specification: every per-request error after validation is caught by the handler and
  becomes a JSON server error. The handler: the upload is stored by \<open>file.save\<close> at
  line 67, before the \<open>try\<close> statement of line 69, so a request that passes validation
  and whose file name is too long for the file system ends in an exception that leaves
  the handler, with no JSON answer and no file stored.
\<close>

theorem C6_save_failure_unhandled:
  "upload_file (sample_env uuid_a name_max (response_of [sdk_inline_part png_b]))
     (upload_request long_name png_a ''make the sky purple'') Map.empty
   = (Unhandled (OtherError
        (''[Errno 36] File name too long: '' @ [CHR 0x27] @
         ''uploads/0123456789abcdef0123456789abcdef_'' @ long_name @ [CHR 0x27])),
      Map.empty)"
proof -
  let ?env = "sample_env uuid_a name_max (response_of [sdk_inline_part png_b])"
  let ?req = "upload_request long_name png_a ''make the sky purple''"
  let ?upl = "\<lparr>filename = long_name, stream = png_a\<rparr>"
  let ?path = "''uploads/0123456789abcdef0123456789abcdef_'' @ long_name"
  have h1: "files ?req ''file'' = Some ?upl" by (simp add: upload_request_def)
  have h2: "filename ?upl \<noteq> []" by (simp add: long_name_def)
  have h3: "form ?req ''instruction'' = Some ''make the sky purple''"
    by (simp add: upload_request_def)
  have h4: "''make the sky purple'' \<noteq> []" by simp
  have "allowed_file (replicate 300 (CHR ''a'') @ ''.'' @ ''png'')"
    using allowed_file_split[of "''png''" "replicate 300 (CHR ''a'')"]
    by (simp add: lower_def lower_char_def ALLOWED_EXTENSIONS_def)
  then have h5: "allowed_file (filename ?upl)" by (simp add: long_name_def)
  have keep: "sample_secure_filename long_name = long_name"
    by (simp add: sample_secure_filename_def long_name_def)
  have slash: "CHR ''/'' \<notin> set (''0123456789abcdef0123456789abcdef_'' @ long_name)"
    by (simp add: long_name_def)
  have p: "os_path_join UPLOAD_FOLDER (stored_name ?env (filename ?upl)) = ?path"
    by (simp add: stored_name_def sample_env_def uuid_a_def keep os_path_join_def
        UPLOAD_FOLDER_def)
  have "basename (''uploads'' @ CHR ''/'' # (''0123456789abcdef0123456789abcdef_'' @ long_name))
          = ''0123456789abcdef0123456789abcdef_'' @ long_name"
    using slash by (rule basename_join)
  then have "basename ?path = ''0123456789abcdef0123456789abcdef_'' @ long_name"
    by simp
  then have "length (basename ?path) = 337" by (simp add: long_name_def)
  then have w: "os_write_error ?env ?path =
      Some (OtherError (''[Errno 36] File name too long: '' @ [CHR 0x27] @ ?path @ [CHR 0x27]))"
    by (simp add: sample_env_def name_max_def)
  show ?thesis
    using upload_file_accepted[OF h1 h2 h3 h4 h5, of ?env Map.empty] w
    unfolding p by (simp add: write_file_def)
qed

lemma rsplit1_head_cases:
  "(\<exists>ext. sn = (rsplit1 (CHR ''.'') sn ! 0) @ ''.'' @ ext \<and> CHR ''.'' \<notin> set ext) \<or>
   (CHR ''.'' \<notin> set sn \<and> rsplit1 (CHR ''.'') sn ! 0 = sn)"
proof (cases "CHR ''.'' \<in> set sn")
  case True
  then obtain stem ext where s: "sn = stem @ CHR ''.'' # ext" and n: "CHR ''.'' \<notin> set ext"
    using split_at_last[of "CHR ''.''" sn] by auto
  have "rsplit1 (CHR ''.'') (stem @ CHR ''.'' # ext) = [stem, ext]"
    using n by (rule rsplit1_last_sep)
  then have "rsplit1 (CHR ''.'') sn ! 0 = stem" using s by simp
  then have "sn = (rsplit1 (CHR ''.'') sn ! 0) @ ''.'' @ ext \<and> CHR ''.'' \<notin> set ext"
    using s n by simp
  then have "\<exists>ext. sn = (rsplit1 (CHR ''.'') sn ! 0) @ ''.'' @ ext \<and> CHR ''.'' \<notin> set ext"
    by (rule exI)
  then show ?thesis by (rule disjI1)
next
  case False
  then have "rsplit1 (CHR ''.'') sn = [sn]" by (rule rsplit1_no_sep)
  then have "CHR ''.'' \<notin> set sn \<and> rsplit1 (CHR ''.'') sn ! 0 = sn" using False by simp
  then show ?thesis by (rule disjI2)
qed

lemma uuid_prefix_differs:
  assumes "is_uuid_hex u"
  shows "u @ xs \<noteq> ''processed_'' @ ys"
proof
  assume e: "u @ xs = ''processed_'' @ ys"
  have ne: "u \<noteq> []" using assms by (rule is_uuid_hex_shape(1))
  then have "hd (u @ xs) = hd u" by simp
  then have "hd u = CHR ''p''" using e by simp
  then show False using is_uuid_hex_shape(3)[OF assms] by simp
qed

lemma uuid_prefix_injective:
  assumes "length u1 = length u2" and "u1 @ xs = u2 @ ys"
  shows "u1 = u2"
  using assms by simp

lemma is_uuid_hex_length: "is_uuid_hex u \<Longrightarrow> length u = 32"
  by (simp add: is_uuid_hex_def)

section \<open>Stored names\<close>

text \<open>
  C7. Two uploads with the same original filename and distinct fresh identifiers get
  distinct stored paths: the two original paths and the two processed paths are four
  different paths.
\<close>

theorem C7_paths_distinct:
  assumes "is_uuid_hex (uuid4_hex env1)" and "is_uuid_hex (uuid4_hex env2)"
    and "uuid4_hex env1 \<noteq> uuid4_hex env2"
    and "secure_filename env1 = secure_filename env2"
  shows "distinct
     [os_path_join UPLOAD_FOLDER (stored_name env1 name),
      os_path_join UPLOAD_FOLDER (stored_name env2 name),
      os_path_join UPLOAD_FOLDER (processed_name (stored_name env1 name)),
      os_path_join UPLOAD_FOLDER (processed_name (stored_name env2 name))]"
proof -
  let ?u1 = "uuid4_hex env1" and ?u2 = "uuid4_hex env2"
  let ?sn = "secure_filename env1 name"
  let ?st = "rsplit1 (CHR ''.'') ?sn ! 0"
  have sn2: "secure_filename env2 name = ?sn" using assms(4) by simp
  have o1: "os_path_join UPLOAD_FOLDER (stored_name env1 name) = ''uploads/'' @ ?u1 @ ''_'' @ ?sn"
    using stored_paths(1)[OF assms(1)] by (simp add: stored_name_def)
  have o2: "os_path_join UPLOAD_FOLDER (stored_name env2 name) = ''uploads/'' @ ?u2 @ ''_'' @ ?sn"
    using stored_paths(1)[OF assms(2)] by (simp add: stored_name_def sn2)
  have p1: "os_path_join UPLOAD_FOLDER (processed_name (stored_name env1 name)) =
              ''uploads/'' @ ''processed_'' @ ?u1 @ ''_'' @ ?st @ ''.png''"
    using stored_paths(2)[OF assms(1), of ?sn] by (simp add: stored_name_def)
  have p2: "os_path_join UPLOAD_FOLDER (processed_name (stored_name env2 name)) =
              ''uploads/'' @ ''processed_'' @ ?u2 @ ''_'' @ ?st @ ''.png''"
    using stored_paths(2)[OF assms(2), of ?sn] by (simp add: stored_name_def sn2)
  have len: "length ?u1 = length ?u2"
    using assms(1,2) by (simp add: is_uuid_hex_length)
  have a: "?u1 @ ''_'' @ ?sn \<noteq> ?u2 @ ''_'' @ ?sn"
    using uuid_prefix_injective[OF len] assms(3) by blast
  have b: "?u1 @ ''_'' @ ?st @ ''.png'' \<noteq> ?u2 @ ''_'' @ ?st @ ''.png''"
    using uuid_prefix_injective[OF len] assms(3) by blast
  have c11: "?u1 @ ''_'' @ ?sn \<noteq> ''processed_'' @ ?u1 @ ''_'' @ ?st @ ''.png''"
    using assms(1) by (rule uuid_prefix_differs)
  have c12: "?u1 @ ''_'' @ ?sn \<noteq> ''processed_'' @ ?u2 @ ''_'' @ ?st @ ''.png''"
    using assms(1) by (rule uuid_prefix_differs)
  have c21: "?u2 @ ''_'' @ ?sn \<noteq> ''processed_'' @ ?u1 @ ''_'' @ ?st @ ''.png''"
    using assms(2) by (rule uuid_prefix_differs)
  have c22: "?u2 @ ''_'' @ ?sn \<noteq> ''processed_'' @ ?u2 @ ''_'' @ ?st @ ''.png''"
    using assms(2) by (rule uuid_prefix_differs)
  show ?thesis
    unfolding o1 o2 p1 p2 distinct.simps set_simps
    using a b c11 c12 c21 c22 by (simp del: append_assoc append.simps)
qed

theorem C7_paths_distinct_witness:
  "distinct
     [''uploads/0123456789abcdef0123456789abcdef_cat.png'',
      ''uploads/fedcba9876543210fedcba9876543210_cat.png'',
      ''uploads/processed_0123456789abcdef0123456789abcdef_cat.png'',
      ''uploads/processed_fedcba9876543210fedcba9876543210_cat.png'']"
proof -
  let ?e1 = "sample_env uuid_a writable (response_of [])"
  let ?e2 = "sample_env uuid_b writable (response_of [])"
  have h1: "is_uuid_hex (uuid4_hex ?e1)" by (simp add: sample_defs is_uuid_hex_def)
  have h2: "is_uuid_hex (uuid4_hex ?e2)" by (simp add: sample_defs is_uuid_hex_def)
  have h3: "uuid4_hex ?e1 \<noteq> uuid4_hex ?e2" by (simp add: sample_defs)
  have h4: "secure_filename ?e1 = secure_filename ?e2" by (simp add: sample_defs)
  have q1: "os_path_join UPLOAD_FOLDER (stored_name ?e1 ''cat.png'') =
              ''uploads/0123456789abcdef0123456789abcdef_cat.png''"
    by (simp add: sample_defs handler_defs)
  have q2: "os_path_join UPLOAD_FOLDER (stored_name ?e2 ''cat.png'') =
              ''uploads/fedcba9876543210fedcba9876543210_cat.png''"
    by (simp add: sample_defs handler_defs)
  have q3: "os_path_join UPLOAD_FOLDER (processed_name (stored_name ?e1 ''cat.png'')) =
              ''uploads/processed_0123456789abcdef0123456789abcdef_cat.png''"
    by (simp add: sample_defs handler_defs)
  have q4: "os_path_join UPLOAD_FOLDER (processed_name (stored_name ?e2 ''cat.png'')) =
              ''uploads/processed_fedcba9876543210fedcba9876543210_cat.png''"
    by (simp add: sample_defs handler_defs)
  show ?thesis
    using C7_paths_distinct[OF h1 h2 h3 h4, of "''cat.png''"]
    unfolding q1 q2 q3 q4 .
qed

text \<open>
  C5. A status 200 answer names the stored upload, the identifier, an underscore and the
  sanitised original name, and the stored result, \<open>processed_\<close> followed by the same
  identifier and name without the name's last extension and by \<open>.png\<close>, both under
  \<open>/uploads/\<close>; both files are in the upload directory; and the instruction comes back
  as it was submitted.
\<close>

theorem C5_success_response:
  assumes "upload_file env req dir = (Json 200 body, dir')"
    and "is_uuid_hex (uuid4_hex env)"
  shows "\<exists>upl instr stem png.
           files req ''file'' = Some upl \<and>
           form req ''instruction'' = Some instr \<and>
           ((\<exists>ext. secure_filename env (filename upl) = stem @ ''.'' @ ext \<and>
                   CHR ''.'' \<notin> set ext) \<or>
            (CHR ''.'' \<notin> set (secure_filename env (filename upl)) \<and>
             stem = secure_filename env (filename upl))) \<and>
           body = EditResult
             (''/uploads/'' @ uuid4_hex env @ ''_'' @ secure_filename env (filename upl))
             (''/uploads/'' @ ''processed_'' @ uuid4_hex env @ ''_'' @ stem @ ''.png'')
             instr \<and>
           dir' (''uploads/'' @ uuid4_hex env @ ''_'' @ secure_filename env (filename upl))
             = Some (stream upl) \<and>
           dir' (''uploads/'' @ ''processed_'' @ uuid4_hex env @ ''_'' @ stem @ ''.png'')
             = Some png"
proof -
  from upload_file_200[OF assms(1)] obtain upl instr url where
    f: "files req ''file'' = Some upl" and i: "form req ''instruction'' = Some instr" and
    t: "try_body env instr (stored_name env (filename upl))
             (os_path_join UPLOAD_FOLDER (stored_name env (filename upl)))
             (dir(os_path_join UPLOAD_FOLDER (stored_name env (filename upl)) \<mapsto> stream upl))
             = Inr (url, dir')" and
    b: "body = EditResult (''/uploads/'' @ stored_name env (filename upl)) url instr"
    by blast
  let ?u = "uuid4_hex env"
  let ?sn = "secure_filename env (filename upl)"
  let ?st = "rsplit1 (CHR ''.'') ?sn ! 0"
  let ?orig = "''uploads/'' @ ?u @ ''_'' @ ?sn"
  let ?proc = "''uploads/'' @ ''processed_'' @ ?u @ ''_'' @ ?st @ ''.png''"
  have sn: "stored_name env (filename upl) = ?u @ ''_'' @ ?sn"
    by (simp add: stored_name_def)
  have o: "os_path_join UPLOAD_FOLDER (stored_name env (filename upl)) = ?orig"
    using stored_paths(1)[OF assms(2), of ?sn] by (simp add: stored_name_def)
  have p: "os_path_join UPLOAD_FOLDER (processed_name (stored_name env (filename upl))) = ?proc"
    using stored_paths(2)[OF assms(2), of ?sn] by (simp add: stored_name_def)
  have pn: "processed_name (stored_name env (filename upl)) =
              ''processed_'' @ ?u @ ''_'' @ ?st @ ''.png''"
    using stem_of_stored[OF is_uuid_hex_shape(4)[OF assms(2)], of ?sn]
    by (simp add: processed_name_def stored_name_def)
  from try_body_Inr[OF t] obtain png where
    url: "url = ''/uploads/'' @ processed_name (stored_name env (filename upl))" and
    d: "dir' = (dir(os_path_join UPLOAD_FOLDER (stored_name env (filename upl)) \<mapsto> stream upl))
                 (os_path_join UPLOAD_FOLDER (processed_name (stored_name env (filename upl)))
                    \<mapsto> png)"
    by blast
  have neq: "?u @ ''_'' @ ?sn \<noteq> ''processed_'' @ ?u @ ''_'' @ ?st @ ''.png''"
    using assms(2) by (rule uuid_prefix_differs)
  have ne: "?orig \<noteq> ?proc"
    using neq by (simp del: append_assoc append.simps)
  have d': "dir' = (dir(?orig \<mapsto> stream upl))(?proc \<mapsto> png)"
    using d unfolding o p .
  have g1: "dir' ?orig = Some (stream upl)"
    unfolding d' using ne by (simp del: append_assoc append.simps)
  have g2: "dir' ?proc = Some png"
    unfolding d' by (simp del: append_assoc append.simps)
  have body: "body = EditResult (''/uploads/'' @ ?u @ ''_'' @ ?sn)
             (''/uploads/'' @ ''processed_'' @ ?u @ ''_'' @ ?st @ ''.png'') instr"
    using b unfolding url pn unfolding sn .
  have stem: "(\<exists>ext. ?sn = ?st @ ''.'' @ ext \<and> CHR ''.'' \<notin> set ext) \<or>
            (CHR ''.'' \<notin> set ?sn \<and> ?st = ?sn)"
    by (rule rsplit1_head_cases)
  have "files req ''file'' = Some upl \<and>
           form req ''instruction'' = Some instr \<and>
           ((\<exists>ext. ?sn = ?st @ ''.'' @ ext \<and> CHR ''.'' \<notin> set ext) \<or>
            (CHR ''.'' \<notin> set ?sn \<and> ?st = ?sn)) \<and>
           body = EditResult (''/uploads/'' @ ?u @ ''_'' @ ?sn)
             (''/uploads/'' @ ''processed_'' @ ?u @ ''_'' @ ?st @ ''.png'') instr \<and>
           dir' ?orig = Some (stream upl) \<and>
           dir' ?proc = Some png"
    using f i stem body g1 g2 by (intro conjI)
  then show ?thesis by (intro exI)
qed

text \<open>An upload named in upper case with two dots, answered with status 200.\<close>

theorem C5_success_response_witness:
  "is_uuid_hex (uuid4_hex (sample_env uuid_a writable (response_of [sdk_inline_part png_b]))) \<and>
   fst (upload_file (sample_env uuid_a writable (response_of [sdk_inline_part png_b]))
     (upload_request ''cat.v2.JPG'' png_a ''make the sky purple'') Map.empty) =
     Json 200 (EditResult ''/uploads/0123456789abcdef0123456789abcdef_cat.v2.JPG''
        ''/uploads/processed_0123456789abcdef0123456789abcdef_cat.v2.png''
        ''make the sky purple'') \<and>
   (\<exists>upl instr.
      files (upload_request ''cat.v2.JPG'' png_a ''make the sky purple'') ''file'' = Some upl \<and>
      form (upload_request ''cat.v2.JPG'' png_a ''make the sky purple'') ''instruction''
        = Some instr \<and>
      snd (upload_file (sample_env uuid_a writable (response_of [sdk_inline_part png_b]))
             (upload_request ''cat.v2.JPG'' png_a ''make the sky purple'') Map.empty)
        (''uploads/'' @ uuid_a @ ''_'' @ sample_secure_filename (filename upl))
        = Some (stream upl))"
proof -
  let ?env = "sample_env uuid_a writable (response_of [sdk_inline_part png_b])"
  let ?req = "upload_request ''cat.v2.JPG'' png_a ''make the sky purple''"
  let ?dir = "[''uploads/0123456789abcdef0123456789abcdef_cat.v2.JPG'' \<mapsto> png_a,
       ''uploads/processed_0123456789abcdef0123456789abcdef_cat.v2.png'' \<mapsto> png_b]"
  have h1: "upload_file ?env ?req Map.empty =
     (Json 200 (EditResult ''/uploads/0123456789abcdef0123456789abcdef_cat.v2.JPG''
        ''/uploads/processed_0123456789abcdef0123456789abcdef_cat.v2.png''
        ''make the sky purple''), ?dir)"
    by (simp add: sample_defs handler_defs)
  have h2: "is_uuid_hex (uuid4_hex ?env)" by (simp add: sample_defs is_uuid_hex_def)
  have u: "uuid4_hex ?env = uuid_a" by (simp add: sample_env_def)
  have s: "secure_filename ?env = sample_secure_filename" by (simp add: sample_env_def)
  from C5_success_response[OF h1 h2] obtain upl instr where
    c1: "files ?req ''file'' = Some upl" and
    c2: "form ?req ''instruction'' = Some instr" and
    c3: "?dir (''uploads/'' @ uuid4_hex ?env @ ''_'' @ secure_filename ?env (filename upl))
           = Some (stream upl)"
    by blast
  have c3': "snd (upload_file ?env ?req Map.empty)
        (''uploads/'' @ uuid_a @ ''_'' @ sample_secure_filename (filename upl))
        = Some (stream upl)"
    using c3 unfolding u s h1 snd_conv .
  have "files ?req ''file'' = Some upl \<and> form ?req ''instruction'' = Some instr \<and>
      snd (upload_file ?env ?req Map.empty)
        (''uploads/'' @ uuid_a @ ''_'' @ sample_secure_filename (filename upl))
        = Some (stream upl)"
    using c1 c2 c3' by (intro conjI)
  then have e: "\<exists>upl instr.
      files ?req ''file'' = Some upl \<and> form ?req ''instruction'' = Some instr \<and>
      snd (upload_file ?env ?req Map.empty)
        (''uploads/'' @ uuid_a @ ''_'' @ sample_secure_filename (filename upl))
        = Some (stream upl)"
    by (intro exI)
  have f: "fst (upload_file ?env ?req Map.empty) =
     Json 200 (EditResult ''/uploads/0123456789abcdef0123456789abcdef_cat.v2.JPG''
        ''/uploads/processed_0123456789abcdef0123456789abcdef_cat.v2.png''
        ''make the sky purple'')"
    unfolding h1 fst_conv ..
  show ?thesis using h2 f e by (intro conjI)
qed

end
